theory Spec2Isabelle
  imports Complex_Main "HOL-Library.Word"
begin

unbundle bit_operations_syntax

section \<open>JavaScript values\<close>

text \<open>
  A JavaScript string is a sequence of UTF-16 code units, a \<open>Buffer\<close> a sequence of
  bytes. String literals of the source are ASCII and are embedded with \<open>js\<close>.
\<close>

type_synonym byte = "8 word"
type_synonym bytes = "byte list"
type_synonym code_unit = "16 word"
type_synonym jsstring = "code_unit list"

definition js :: "string \<Rightarrow> jsstring" where
  "js s = map of_char s"

text \<open>\<open>String.prototype.charAt\<close>: the empty string when the index is out of range.\<close>

definition charAt :: "jsstring \<Rightarrow> nat \<Rightarrow> jsstring" where
  "charAt s i = (if i < length s then [s ! i] else [])"

text \<open>A parsed JSON value, as \<open>express.json()\<close> puts it into a request body.\<close>

datatype json =
    JNull
  | JBool bool
  | JNum rat
  | JStr jsstring
  | JArr "json list"
  | JObj "(jsstring \<times> json) list"

text \<open>JavaScript's \<open>ToBoolean\<close> on a parsed JSON value.\<close>

fun truthy :: "json \<Rightarrow> bool" where
  "truthy JNull = False"
| "truthy (JBool b) = b"
| "truthy (JNum x) = (x \<noteq> 0)"
| "truthy (JStr s) = (s \<noteq> [])"
| "truthy (JArr xs) = True"
| "truthy (JObj kvs) = True"

section \<open>Random code generator\<close>

text \<open>
  \<open>crypto.randomBytes\<close> is the only source of randomness. The generator's state is the
  stream of bytes still to be delivered; \<open>randomBytes n\<close> takes the next \<open>n\<close> of them.
\<close>

type_synonym rng = "nat \<Rightarrow> byte"

definition randomBytes :: "nat \<Rightarrow> rng \<Rightarrow> bytes \<times> rng" where
  "randomBytes n r = (map r [0..<n], \<lambda>i. r (i + n))"

definition characters :: jsstring where
  "characters =
     js ''ABCDEFGHIJKLMNOPQRSTUVWXYZabcdefghijklmnopqrstuvwxyz0123456789!@#$%^&*()''"

definition codeLength :: nat where
  "codeLength = 12"

text \<open>The \<open>for\<close> loop of \<open>generateRandomCode\<close>, with its counter \<open>i\<close> and accumulator \<open>code\<close>.\<close>

function generateRandomCode_loop :: "bytes \<Rightarrow> nat \<Rightarrow> jsstring \<Rightarrow> jsstring" where
  "generateRandomCode_loop bs i code =
     (if i < codeLength
      then generateRandomCode_loop bs (i + 1)
             (code @ charAt characters (unat (bs ! i) mod length characters))
      else code)"
  by pat_completeness auto
termination
  by (relation "measure (\<lambda>(bs, i, code). codeLength - i)") auto

declare generateRandomCode_loop.simps [simp del]

definition generateRandomCode :: "rng \<Rightarrow> jsstring \<times> rng" where
  "generateRandomCode r =
     (let (bs, r') = randomBytes codeLength r
      in (generateRandomCode_loop bs 0 [], r'))"

section \<open>Cipher\<close>

datatype store_op =
    CodeFindOne | CodeCountDocuments | CodeDeleteMany | CodeInsertMany
  | SessionFindOne | SessionFindOneAndUpdate | SessionDeleteOne

datatype error =
    InvalidKeyLength
  | InvalidIV
  | InvalidArgType
  | CastError
  | StoreError store_op
  | DuplicateKey jsstring

text \<open>
  What the process is given. The configuration is read once from the environment;
  \<open>Buffer.from(..., 'hex')\<close> has already turned the key and the IV into bytes. The parts
  of the libraries that the source does not contain are parameters:
  \<^item> \<open>aes k b\<close> is the AES encryption of the 16-byte block \<open>b\<close> under the key \<open>k\<close>;
  \<^item> \<open>castString v\<close> is Mongoose's cast of a value \<open>v\<close> that is not a string to a schema
    path of type String: the string, or a cast error;
  \<^item> \<open>castForQuery v\<close> is the condition that a filter value \<open>v\<close>, other than a string or
    the operator object \<open>{$ne: string}\<close>, puts on a path of type String, or a cast error.
\<close>

record config =
  aes :: "bytes \<Rightarrow> bytes \<Rightarrow> bytes"
  key :: bytes
  iv :: bytes
  OPENAI_API_KEY :: jsstring
  castString :: "json \<Rightarrow> error + jsstring"
  castForQuery :: "json \<Rightarrow> error + (jsstring \<Rightarrow> bool)"

subsection \<open>The \<open>'utf8'\<close> input encoding\<close>

definition is_high_surrogate :: "code_unit \<Rightarrow> bool" where
  "is_high_surrogate u \<longleftrightarrow> 0xD800 \<le> u \<and> u \<le> 0xDBFF"

definition is_low_surrogate :: "code_unit \<Rightarrow> bool" where
  "is_low_surrogate u \<longleftrightarrow> 0xDC00 \<le> u \<and> u \<le> 0xDFFF"

text \<open>
  The code points of a string: a high surrogate followed by a low surrogate is one
  supplementary code point, any other surrogate is replaced by U+FFFD.
\<close>

fun code_points :: "jsstring \<Rightarrow> nat list" where
  "code_points [] = []"
| "code_points [u] =
     [if is_high_surrogate u \<or> is_low_surrogate u then 0xFFFD else unat u]"
| "code_points (u # v # r) =
     (if is_high_surrogate u \<and> is_low_surrogate v
      then (0x10000 + (unat u - 0xD800) * 0x400 + (unat v - 0xDC00)) # code_points r
      else if is_high_surrogate u \<or> is_low_surrogate u
      then 0xFFFD # code_points (v # r)
      else unat u # code_points (v # r))"

definition utf8_code_point :: "nat \<Rightarrow> bytes" where
  "utf8_code_point c =
     (if c < 0x80 then [of_nat c]
      else if c < 0x800 then [of_nat (0xC0 + c div 64), of_nat (0x80 + c mod 64)]
      else if c < 0x10000
      then [of_nat (0xE0 + c div 4096), of_nat (0x80 + c div 64 mod 64),
            of_nat (0x80 + c mod 64)]
      else [of_nat (0xF0 + c div 262144), of_nat (0x80 + c div 4096 mod 64),
            of_nat (0x80 + c div 64 mod 64), of_nat (0x80 + c mod 64)])"

definition utf8 :: "jsstring \<Rightarrow> bytes" where
  "utf8 s = concat (map utf8_code_point (code_points s))"

text \<open>
  A string that is written as UTF-8 and read back: surrogate pairs are kept, every other
  surrogate has become U+FFFD. This is what the document store does to every string it
  keeps or is queried with.
\<close>

fun utf8_roundtrip :: "jsstring \<Rightarrow> jsstring" where
  "utf8_roundtrip [] = []"
| "utf8_roundtrip [u] = [if is_high_surrogate u \<or> is_low_surrogate u then 0xFFFD else u]"
| "utf8_roundtrip (u # v # r) =
     (if is_high_surrogate u \<and> is_low_surrogate v then u # v # utf8_roundtrip r
      else if is_high_surrogate u \<or> is_low_surrogate u
      then 0xFFFD # utf8_roundtrip (v # r)
      else u # utf8_roundtrip (v # r))"

text \<open>Well-formed UTF-16: every surrogate is part of a pair.\<close>

fun well_formed :: "jsstring \<Rightarrow> bool" where
  "well_formed [] = True"
| "well_formed [u] = (\<not> is_high_surrogate u \<and> \<not> is_low_surrogate u)"
| "well_formed (u # v # r) =
     (if is_high_surrogate u then is_low_surrogate v \<and> well_formed r
      else \<not> is_low_surrogate u \<and> well_formed (v # r))"

subsection \<open>The \<open>'hex'\<close> output encoding\<close>

definition hex_digit :: "nat \<Rightarrow> code_unit" where
  "hex_digit n = js ''0123456789abcdef'' ! n"

definition hex_byte :: "byte \<Rightarrow> jsstring" where
  "hex_byte b = [hex_digit (unat b div 16), hex_digit (unat b mod 16)]"

definition hex :: "bytes \<Rightarrow> jsstring" where
  "hex bs = concat (map hex_byte bs)"

subsection \<open>\<open>aes-256-cbc\<close>\<close>

definition xor_bytes :: "bytes \<Rightarrow> bytes \<Rightarrow> bytes" where
  "xor_bytes a b = map2 (XOR) a b"

text \<open>
  The cipher object: its key, the chaining value (the IV, then the last ciphertext
  block) and the input bytes that do not fill a block yet.
\<close>

record cipher =
  c_key :: bytes
  c_prev :: bytes
  c_buf :: bytes

definition createCipheriv :: "bytes \<Rightarrow> bytes \<Rightarrow> error + cipher" where
  "createCipheriv k v =
     (if length v \<noteq> 16 then Inl InvalidIV
      else if length k \<noteq> 32 then Inl InvalidKeyLength
      else Inr \<lparr>c_key = k, c_prev = v, c_buf = []\<rparr>)"

text \<open>
  Cipher block chaining over the full blocks of the data: the output, the new chaining
  value and the bytes left over.
\<close>

function cbc_blocks :: "(bytes \<Rightarrow> bytes) \<Rightarrow> bytes \<Rightarrow> bytes \<Rightarrow> bytes \<times> bytes \<times> bytes" where
  "cbc_blocks E prev data =
     (if length data < 16 then ([], prev, data)
      else let c = E (xor_bytes prev (take 16 data));
               (out, prev', rest) = cbc_blocks E c (drop 16 data)
           in (c @ out, prev', rest))"
  by pat_completeness auto
termination
  by (relation "measure (\<lambda>(E, prev, data). length data)") auto

declare cbc_blocks.simps [simp del]

definition cipher_update :: "(bytes \<Rightarrow> bytes \<Rightarrow> bytes) \<Rightarrow> cipher \<Rightarrow> bytes \<Rightarrow> bytes \<times> cipher" where
  "cipher_update A c data =
     (let (out, prev', rest) = cbc_blocks (A (c_key c)) (c_prev c) (c_buf c @ data)
      in (out, c\<lparr>c_prev := prev', c_buf := rest\<rparr>))"

text \<open>PKCS#7 padding of the last, incomplete block.\<close>

definition pkcs7_pad :: "bytes \<Rightarrow> bytes" where
  "pkcs7_pad buf = buf @ replicate (16 - length buf) (of_nat (16 - length buf))"

definition cipher_final :: "(bytes \<Rightarrow> bytes \<Rightarrow> bytes) \<Rightarrow> cipher \<Rightarrow> bytes" where
  "cipher_final A c = A (c_key c) (xor_bytes (c_prev c) (pkcs7_pad (c_buf c)))"

definition encrypt :: "config \<Rightarrow> jsstring \<Rightarrow> error + jsstring" where
  "encrypt cfg text =
     (case createCipheriv (key cfg) (iv cfg) of
        Inl e \<Rightarrow> Inl e
      | Inr cipher \<Rightarrow>
          let (out, cipher') = cipher_update (aes cfg) cipher (utf8 text);
              encrypted = hex out;
              encrypted = encrypted @ hex (cipher_final (aes cfg) cipher')
          in Inr encrypted)"

text \<open>
  \<open>encrypt\<close> called with a request field: \<open>cipher.update\<close> throws on a value that is not
  a string.
\<close>

definition encrypt_value :: "config \<Rightarrow> json \<Rightarrow> error + jsstring" where
  "encrypt_value cfg v =
     (case v of
        JStr text \<Rightarrow> encrypt cfg text
      | _ \<Rightarrow> (case createCipheriv (key cfg) (iv cfg) of
                Inl e \<Rightarrow> Inl e
              | Inr cipher \<Rightarrow> Inl InvalidArgType))"

text \<open>The whole ciphertext of a byte sequence, as \<open>update\<close> and \<open>final\<close> deliver it in two parts.\<close>

definition cbc_pkcs7 :: "(bytes \<Rightarrow> bytes) \<Rightarrow> bytes \<Rightarrow> bytes \<Rightarrow> bytes" where
  "cbc_pkcs7 E v ds =
     (case cbc_blocks E v ds of
        (out, prev', rest) \<Rightarrow> out @ E (xor_bytes prev' (pkcs7_pad rest)))"

text \<open>
  What is assumed of the AES parameter: under the configured key it maps 16-byte blocks
  to 16-byte blocks and is one-to-one on them.
\<close>

definition block_permutation :: "(bytes \<Rightarrow> bytes) \<Rightarrow> bool" where
  "block_permutation E \<longleftrightarrow>
     (\<forall>b. length b = 16 \<longrightarrow> length (E b) = 16)
     \<and> (\<forall>a b. length a = 16 \<and> length b = 16 \<and> E a = E b \<longrightarrow> a = b)"

definition valid_config :: "config \<Rightarrow> bool" where
  "valid_config cfg \<longleftrightarrow>
     length (key cfg) = 32 \<and> length (iv cfg) = 16 \<and> block_permutation (aes cfg (key cfg))"

text \<open>A stand-in block transformation for concrete runs: XOR with the first half of the key.\<close>

definition xor_cipher :: "bytes \<Rightarrow> bytes \<Rightarrow> bytes" where
  "xor_cipher k b = xor_bytes (take 16 k) b"

definition test_config :: config where
  "test_config = \<lparr>aes = xor_cipher, key = map of_nat [0..<32], iv = map of_nat [100..<116],
     OPENAI_API_KEY = js ''sk-test'', castString = (\<lambda>v. Inl CastError),
     castForQuery = (\<lambda>v. Inl CastError)\<rparr>"

section \<open>Persistent store\<close>

text \<open>
  The two Mongoose models. A collection is the list of its documents in insertion order;
  \<open>createdAt\<close> is a time in milliseconds. Both schemas declare \<open>code\<close> unique. The store
  keeps strings as UTF-8, so every string of a filter or of a document reaches it as its
  \<open>utf8_roundtrip\<close>.
\<close>

type_synonym timestamp = nat

record access_code =
  ac_code :: jsstring
  ac_encryptedCode :: jsstring
  ac_createdAt :: timestamp

record session =
  s_code :: jsstring
  s_deviceId :: jsstring
  s_createdAt :: timestamp

record database =
  Code :: "access_code list"
  Session :: "session list"

text \<open>\<open>Code.findOne({ encryptedCode })\<close> and \<open>Session.findOne({ code })\<close>, for strings.\<close>

definition Code_findOne :: "jsstring \<Rightarrow> access_code list \<Rightarrow> access_code option" where
  "Code_findOne enc coll = find (\<lambda>a. ac_encryptedCode a = utf8_roundtrip enc) coll"

definition Session_findOne :: "jsstring \<Rightarrow> session list \<Rightarrow> session option" where
  "Session_findOne c coll = find (\<lambda>s. s_code s = utf8_roundtrip c) coll"

text \<open>
  \<open>Session.findOneAndUpdate({ code }, { code, deviceId }, { upsert: true, new: true })\<close>
  for a string \<open>code\<close> and a \<open>deviceId\<close> already cast to a string: the update document has
  no operator, so its two fields are set on the first matching document and every other
  field of that document is kept; without a match a new document is inserted, whose
  \<open>createdAt\<close> is the schema default \<open>Date.now\<close>.
\<close>

fun Session_findOneAndUpdate ::
  "timestamp \<Rightarrow> jsstring \<Rightarrow> jsstring \<times> jsstring \<Rightarrow> session list \<Rightarrow> session list" where
  "Session_findOneAndUpdate t q (c, d) [] =
     [\<lparr>s_code = utf8_roundtrip c, s_deviceId = utf8_roundtrip d, s_createdAt = t\<rparr>]"
| "Session_findOneAndUpdate t q (c, d) (s # ss) =
     (if s_code s = utf8_roundtrip q
      then s\<lparr>s_code := utf8_roundtrip c, s_deviceId := utf8_roundtrip d\<rparr> # ss
      else s # Session_findOneAndUpdate t q (c, d) ss)"

text \<open>
  The condition that the filter \<open>{ code: v }\<close> puts on the \<open>code\<close> of a document. A string
  asks for equality, the operator object \<open>{$ne: string}\<close> for inequality; what any other
  value means is Mongoose's business.
\<close>

fun filter_code :: "config \<Rightarrow> json \<Rightarrow> error + (jsstring \<Rightarrow> bool)" where
  "filter_code cfg (JStr c) = Inr (\<lambda>x. x = utf8_roundtrip c)"
| "filter_code cfg (JObj [(k, JStr c)]) =
     (if k = js ''$ne'' then Inr (\<lambda>x. x \<noteq> utf8_roundtrip c)
      else castForQuery cfg (JObj [(k, JStr c)]))"
| "filter_code cfg v = castForQuery cfg v"

text \<open>\<open>Session.deleteOne(filter)\<close> removes the first matching document, if any.\<close>

fun Session_deleteOne :: "(jsstring \<Rightarrow> bool) \<Rightarrow> session list \<Rightarrow> session list" where
  "Session_deleteOne p [] = []"
| "Session_deleteOne p (s # ss) = (if p (s_code s) then ss else s # Session_deleteOne p ss)"

text \<open>
  \<open>Code.insertMany(codes)\<close> is an ordered bulk insert: the documents are inserted one
  after the other, and the first one whose \<open>code\<close> is already in the collection stops
  the insert with a duplicate key error, the documents before it staying inserted.
\<close>

fun Code_insertMany ::
  "timestamp \<Rightarrow> (jsstring \<times> jsstring) list \<Rightarrow> access_code list
     \<Rightarrow> error option \<times> access_code list" where
  "Code_insertMany t [] coll = (None, coll)"
| "Code_insertMany t ((c, e) # ds) coll =
     (if utf8_roundtrip c \<in> set (map ac_code coll)
      then (Some (DuplicateKey (utf8_roundtrip c)), coll)
      else Code_insertMany t ds
             (coll @ [\<lparr>ac_code = utf8_roundtrip c, ac_encryptedCode = utf8_roundtrip e,
                       ac_createdAt = t\<rparr>]))"

section \<open>Requests, responses and the environment of a request\<close>

record response =
  status :: nat
  body :: json

record http_request =
  url :: jsstring
  data :: json
  headers :: "(jsstring \<times> jsstring) list"

text \<open>
  A rejected \<open>axios.post\<close>: \<open>error.response.data\<close> when the upstream answered, and
  \<open>error.message\<close>.
\<close>

record axios_error =
  error_response_data :: "json option"
  error_message :: jsstring

datatype log_entry =
    LogError jsstring error
  | LogUpstream jsstring "json + jsstring"
  | LogInfo jsstring "jsstring list"

text \<open>
  What a request does not control: the clock, which store calls are rejected, and the
  answer of the upstream completion endpoint.
\<close>

record env =
  now :: timestamp
  fails :: "store_op \<Rightarrow> bool"
  upstream :: "http_request \<Rightarrow> axios_error + json"

definition await :: "env \<Rightarrow> store_op \<Rightarrow> 'a \<Rightarrow> error + 'a" where
  "await e op r = (if fails e op then Inl (StoreError op) else Inr r)"

text \<open>
  The outcome of a handler: the response, the store afterwards, what was written to the
  console and the requests sent upstream.
\<close>

record outcome =
  reply :: response
  db :: database
  console :: "log_entry list"
  sent :: "http_request list"

definition respond :: "nat \<Rightarrow> json \<Rightarrow> database \<Rightarrow> outcome" where
  "respond st b d = \<lparr>reply = \<lparr>status = st, body = b\<rparr>, db = d, console = [], sent = []\<rparr>"

definition error_body :: "string \<Rightarrow> json" where
  "error_body msg = JObj [(js ''error'', JStr (js msg))]"

section \<open>Request handlers\<close>


text \<open>\<open>!x\<close> for a field of the body: absent, or a falsy value.\<close>

definition missing :: "json option \<Rightarrow> bool" where
  "missing x = (case x of None \<Rightarrow> True | Some v \<Rightarrow> \<not> truthy v)"


text \<open>
  Mongoose's cast of the \<open>deviceId\<close> of the update document to the schema's String.
\<close>

definition cast_string :: "config \<Rightarrow> json \<Rightarrow> error + jsstring" where
  "cast_string cfg v = (case v of JStr d \<Rightarrow> Inr d | _ \<Rightarrow> castString cfg v)"

text \<open>
  The \<open>try\<close> block of the verification handler. Past \<open>encrypt\<close> the code is a string.
  \<open>existingSession.deviceId !== deviceId\<close> compares the stored string with the field
  as it came: a value that is not a string is never equal.
\<close>

definition verify_code_try ::
  "config \<Rightarrow> env \<Rightarrow> database \<Rightarrow> json \<Rightarrow> json \<Rightarrow> error + outcome" where
  "verify_code_try cfg e st code deviceId =
     (case encrypt_value cfg code of
        Inl err \<Rightarrow> Inl err
      | Inr enc \<Rightarrow>
     (case code of
        JStr c \<Rightarrow>
     (case await e CodeFindOne (Code_findOne enc (Code st)) of
        Inl err \<Rightarrow> Inl err
      | Inr None \<Rightarrow> Inr (respond 200 (JObj [(js ''valid'', JBool False)]) st)
      | Inr (Some storedCode) \<Rightarrow>
     (case await e SessionFindOne (Session_findOne c (Session st)) of
        Inl err \<Rightarrow> Inl err
      | Inr existingSession \<Rightarrow>
          if (case existingSession of
                None \<Rightarrow> False
              | Some s \<Rightarrow> JStr (s_deviceId s) \<noteq> deviceId)
          then Inr (respond 403
                 (error_body ''This code is already in use on another device.'') st)
          else
     (case cast_string cfg deviceId of
        Inl err \<Rightarrow> Inl err
      | Inr d \<Rightarrow>
     (case await e SessionFindOneAndUpdate
             (Session_findOneAndUpdate (now e) c (c, d) (Session st)) of
        Inl err \<Rightarrow> Inl err
      | Inr sessions \<Rightarrow>
          Inr (respond 200 (JObj [(js ''valid'', JBool True)])
                 (st\<lparr>Session := sessions\<rparr>))))))
      | _ \<Rightarrow> Inl InvalidArgType))"

definition verify_code ::
  "config \<Rightarrow> env \<Rightarrow> database \<Rightarrow> json option \<Rightarrow> json option \<Rightarrow> outcome" where
  "verify_code cfg e st code deviceId =
     (if missing code \<or> missing deviceId
      then respond 400 (error_body ''Code and deviceId required'') st
      else case verify_code_try cfg e st (the code) (the deviceId) of
             Inr out \<Rightarrow> out
           | Inl err \<Rightarrow>
               (respond 500 (error_body ''Server error'') st)
                 \<lparr>console := [LogError (js ''Code validation error:'') err]\<rparr>)"

text \<open>The \<open>try\<close> block of the logout handler: the filter is cast, then sent to the store.\<close>

definition logout_try :: "config \<Rightarrow> env \<Rightarrow> database \<Rightarrow> json \<Rightarrow> error + outcome" where
  "logout_try cfg e st code =
     (case filter_code cfg code of
        Inl err \<Rightarrow> Inl err
      | Inr p \<Rightarrow>
     (case await e SessionDeleteOne (Session_deleteOne p (Session st)) of
        Inl err \<Rightarrow> Inl err
      | Inr sessions \<Rightarrow>
          Inr (respond 200 (JObj [(js ''success'', JBool True)]) (st\<lparr>Session := sessions\<rparr>))))"

definition logout :: "config \<Rightarrow> env \<Rightarrow> database \<Rightarrow> json option \<Rightarrow> outcome" where
  "logout cfg e st code =
     (if missing code then respond 400 (error_body ''Code required'') st
      else case logout_try cfg e st (the code) of
             Inr out \<Rightarrow> out
           | Inl err \<Rightarrow>
               (respond 500 (error_body ''Server error'') st)
                 \<lparr>console := [LogError (js ''Logout error:'') err]\<rparr>)"

definition chat_request :: "config \<Rightarrow> json \<Rightarrow> http_request" where
  "chat_request cfg messages =
     \<lparr>url = js ''https://api.openai.com/v1/chat/completions'',
      data = JObj [(js ''model'', JStr (js ''gpt-3.5-turbo'')),
                   (js ''messages'', messages),
                   (js ''temperature'', JNum (8 / 10)),
                   (js ''max_tokens'', JNum 150)],
      headers = [(js ''Authorization'', js ''Bearer '' @ OPENAI_API_KEY cfg),
                 (js ''Content-Type'', js ''application/json'')]\<rparr>"

definition chat :: "config \<Rightarrow> env \<Rightarrow> database \<Rightarrow> json option \<Rightarrow> outcome" where
  "chat cfg e st messages =
     (case messages of
        None \<Rightarrow> respond 400 (error_body ''Messages required'') st
      | Some m \<Rightarrow>
          if \<not> truthy m then respond 400 (error_body ''Messages required'') st
          else case upstream e (chat_request cfg m) of
                 Inr response_data \<Rightarrow>
                   (respond 200 response_data st)\<lparr>sent := [chat_request cfg m]\<rparr>
               | Inl err \<Rightarrow>
                   (respond 500 (error_body ''Failed to generate response'') st)
                     \<lparr>console := [LogUpstream (js ''OpenAI Error:'')
                         (case error_response_data err of
                            Some d \<Rightarrow> Inl d
                          | None \<Rightarrow> Inr (error_message err))],
                      sent := [chat_request cfg m]\<rparr>)"


section \<open>Seeding\<close>

text \<open>The \<open>for\<close> loop of \<open>seedCodes\<close>; \<open>encrypt\<close> may throw, which ends the loop.\<close>

function seedCodes_loop ::
  "config \<Rightarrow> nat \<Rightarrow> (jsstring \<times> jsstring) list \<Rightarrow> rng
     \<Rightarrow> (error + (jsstring \<times> jsstring) list) \<times> rng" where
  "seedCodes_loop cfg i codes r =
     (if i < 10
      then let (code, r') = generateRandomCode r
           in case encrypt cfg code of
                Inl err \<Rightarrow> (Inl err, r')
              | Inr encrypted \<Rightarrow> seedCodes_loop cfg (i + 1) (codes @ [(code, encrypted)]) r'
      else (Inr codes, r))"
  by pat_completeness auto
termination
  by (relation "measure (\<lambda>(cfg, i, codes, r). 10 - i)") auto

declare seedCodes_loop.simps [simp del]

text \<open>
  The outcome of seeding: the store and the generator afterwards, the console output, and
  the error when the promise of \<open>seedCodes\<close> is rejected.
\<close>

record seed_outcome =
  seed_db :: database
  seed_rng :: rng
  seed_console :: "log_entry list"
  seed_rejected :: "error option"

definition seedCodes :: "config \<Rightarrow> env \<Rightarrow> rng \<Rightarrow> database \<Rightarrow> seed_outcome" where
  "seedCodes cfg e r st =
     (case await e CodeCountDocuments (length (Code st)) of
        Inl err \<Rightarrow>
          \<lparr>seed_db = st, seed_rng = r, seed_console = [], seed_rejected = Some err\<rparr>
      | Inr codeCount \<Rightarrow>
          if codeCount = 0 then
            (case await e CodeDeleteMany ([] :: access_code list) of
               Inl err \<Rightarrow>
                 \<lparr>seed_db = st, seed_rng = r, seed_console = [], seed_rejected = Some err\<rparr>
             | Inr emptied \<Rightarrow>
                 let st1 = st\<lparr>Code := emptied\<rparr> in
                 (case seedCodes_loop cfg 0 [] r of
                    (Inl err, r') \<Rightarrow>
                      \<lparr>seed_db = st1, seed_rng = r', seed_console = [],
                       seed_rejected = Some err\<rparr>
                  | (Inr codes, r') \<Rightarrow>
                      (case await e CodeInsertMany
                              (Code_insertMany (now e) codes (Code st1)) of
                         Inl err \<Rightarrow>
                           \<lparr>seed_db = st1, seed_rng = r', seed_console = [],
                            seed_rejected = Some err\<rparr>
                       | Inr (Some err, coll) \<Rightarrow>
                           \<lparr>seed_db = st1\<lparr>Code := coll\<rparr>, seed_rng = r',
                            seed_console = [], seed_rejected = Some err\<rparr>
                       | Inr (None, coll) \<Rightarrow>
                           \<lparr>seed_db = st1\<lparr>Code := coll\<rparr>, seed_rng = r',
                            seed_console =
                              [LogInfo (js ''10 random codes seeded:'') (map fst codes)],
                            seed_rejected = None\<rparr>)))
          else
            \<lparr>seed_db = st, seed_rng = r,
             seed_console =
               [LogInfo (js ''Codes already exist in the database, skipping seeding.'') []],
             seed_rejected = None\<rparr>)"

section \<open>Concrete configurations and stores for test runs\<close>

definition test_env :: env where
  "test_env = \<lparr>now = 1000, fails = (\<lambda>op. False),
     upstream = (\<lambda>req. Inl \<lparr>error_response_data = Some (JStr (js ''quota exceeded'')),
                             error_message = js ''Request failed''\<rparr>)\<rparr>"

definition seeded_db :: database where
  "seeded_db = \<lparr>Code = [\<lparr>ac_code = js ''X1'',
                         ac_encryptedCode = js ''3c556a6a626262626a6a6a6a72727272'',
                         ac_createdAt = 0\<rparr>],
                Session = []\<rparr>"

definition bound_db :: database where
  "bound_db = seeded_db\<lparr>Session := [\<lparr>s_code = js ''X1'', s_deviceId = js ''A'', s_createdAt = 5\<rparr>]\<rparr>"

definition echo_env :: env where
  "echo_env = \<lparr>now = 1000, fails = (\<lambda>op. False), upstream = (\<lambda>req. Inr (data req))\<rparr>"

definition hi_messages :: json where
  "hi_messages = JArr [JObj [(js ''role'', JStr (js ''user'')), (js ''content'', JStr (js ''hi''))]]"


section \<open>Properties of the random code generator\<close>

lemma length_characters: "length characters = 72"
  by (simp add: characters_def js_def)

lemma characters_parts:
  "characters = js ''ABCDEFGHIJKLMNOPQRSTUVWXYZ'' @ js ''abcdefghijklmnopqrstuvwxyz''
     @ js ''0123456789'' @ js ''!@#$%^&*()''"
  by (simp add: characters_def js_def)

lemma generateRandomCode_loop_eq:
  "generateRandomCode_loop bs i code =
     code @ map (\<lambda>k. characters ! (unat (bs ! k) mod 72)) [i..<codeLength]"
proof (induction bs i code rule: generateRandomCode_loop.induct)
  case (1 bs i code)
  show ?case
  proof (cases "i < codeLength")
    case True
    have idx: "unat (bs ! i) mod 72 < length characters"
      by (simp add: length_characters)
    from True have "[i..<codeLength] = i # [i + 1..<codeLength]"
      by (simp add: upt_conv_Cons)
    with True "1.IH" idx show ?thesis
      by (subst generateRandomCode_loop.simps) (simp add: charAt_def length_characters)
  next
    case False
    then show ?thesis
      by (subst generateRandomCode_loop.simps) simp
  qed
qed

lemma generateRandomCode_eq:
  "fst (generateRandomCode r) = map (\<lambda>k. characters ! (unat (r k) mod 72)) [0..<12]"
proof -
  have "map (\<lambda>k. characters ! (unat (map r [0..<12] ! k) mod 72)) [0..<12]
      = map (\<lambda>k. characters ! (unat (r k) mod 72)) [0..<12]"
    by (rule map_cong [OF refl]) simp
  then show ?thesis
    by (simp add: generateRandomCode_def randomBytes_def generateRandomCode_loop_eq
        codeLength_def)
qed

lemma generateRandomCode_rng:
  "snd (generateRandomCode r) = (\<lambda>i. r (i + 12))"
  by (simp add: generateRandomCode_def randomBytes_def codeLength_def)

text \<open>
  C7 (as amended). Every call of the generator returns a string of exactly 12 characters;
  the character at position \<open>i\<close> is the alphabet's character at index
  \<open>randomByte i mod alphabetLength\<close>, hence a member of the alphabet; and the alphabet is
  the fixed 72-character string made of \<open>A-Z\<close>, \<open>a-z\<close>, \<open>0-9\<close> and the 10 symbols
  \<open>!@#$%^&*()\<close>.
\<close>

theorem generateRandomCode_shape:
  "length (fst (generateRandomCode r)) = 12
   \<and> (\<forall>i<12. fst (generateRandomCode r) ! i
         = characters ! (unat (r i) mod length characters))
   \<and> set (fst (generateRandomCode r)) \<subseteq> set characters
   \<and> length characters = 72
   \<and> characters = js ''ABCDEFGHIJKLMNOPQRSTUVWXYZ'' @ js ''abcdefghijklmnopqrstuvwxyz''
        @ js ''0123456789'' @ js ''!@#$%^&*()''
   \<and> length (js ''!@#$%^&*()'') = 10"
proof -
  have len: "length (fst (generateRandomCode r)) = 12"
    by (simp add: generateRandomCode_eq)
  have nth: "\<forall>i<12. fst (generateRandomCode r) ! i
         = characters ! (unat (r i) mod length characters)"
    by (simp add: generateRandomCode_eq length_characters del: upt_Suc)
  have "characters ! (unat (r k) mod 72) \<in> set characters" for k
    by (rule nth_mem) (simp add: length_characters)
  then have sub: "set (fst (generateRandomCode r)) \<subseteq> set characters"
    by (auto simp: generateRandomCode_eq simp del: upt_Suc)
  have sym: "length (js ''!@#$%^&*()'') = 10"
    by (simp add: js_def)
  from len nth sub sym length_characters characters_parts show ?thesis
    by blast
qed

theorem generateRandomCode_shape_witness:
  "fst (generateRandomCode (\<lambda>i. of_nat (i + 70))) = js ''()ABCDEFGHIJ''
   \<and> fst (generateRandomCode (\<lambda>i. of_nat (i + 70))) ! 2 = characters ! (72 mod 72)"
proof -
  let ?r = "(\<lambda>i. of_nat (i + 70)) :: rng"
  have two: "(2::nat) < 12" by simp
  from generateRandomCode_shape [of ?r] two
  have "fst (generateRandomCode ?r) ! 2 = characters ! (unat (?r 2) mod length characters)"
    by blast
  moreover have "unat (?r 2) = 72"
    by simp
  moreover have "fst (generateRandomCode ?r) = js ''()ABCDEFGHIJ''"
    by (simp add: generateRandomCode_eq characters_def js_def upt_rec [of _ "numeral _"]
        unat_of_nat)
  ultimately show ?thesis
    by (simp add: length_characters)
qed

text \<open>
  The alphabet does not have 74 characters: the random byte 73 selects index 1 (the
  letter \<open>B\<close>), where a 74-character alphabet would select its last character.
\<close>

theorem generateRandomCode_alphabet_counterexample:
  "length characters \<noteq> 74
   \<and> fst (generateRandomCode (\<lambda>i. 73)) = js ''BBBBBBBBBBBB''"
  by (simp add: generateRandomCode_eq characters_def js_def upt_rec [of _ "numeral _"])

section \<open>Strings in the store\<close>

lemma surrogate_unat:
  "is_high_surrogate u \<or> is_low_surrogate u \<longleftrightarrow> 0xD800 \<le> unat u \<and> unat u \<le> 0xDFFF"
  by (auto simp: is_high_surrogate_def is_low_surrogate_def word_le_nat_alt)

lemma unat_of_char: "unat (of_char x :: code_unit) = of_char x"
proof -
  have "(of_char x :: nat) < 65536"
    by (rule less_trans [OF nat_of_char_less_256]) simp
  then have "(of_char x :: nat) mod 65536 = of_char x"
    by (rule mod_less)
  then have "unat (of_nat (of_char x) :: code_unit) = of_char x"
    by (simp add: unat_of_nat)
  then show ?thesis by (simp only: of_nat_of_char)
qed

lemma of_char_not_surrogate:
  "\<not> is_high_surrogate (of_char x)" "\<not> is_low_surrogate (of_char x)"
proof -
  have "(of_char x :: nat) < 55296"
    by (rule less_trans [OF nat_of_char_less_256]) simp
  then have "unat (of_char x :: code_unit) < 55296"
    by (simp only: unat_of_char)
  then have "\<not> (0xD800 \<le> unat (of_char x :: code_unit))"
    by simp
  then show "\<not> is_high_surrogate (of_char x)" "\<not> is_low_surrogate (of_char x)"
    using surrogate_unat [of "of_char x"] by blast+
qed

lemma utf8_roundtrip_Cons:
  "\<not> is_high_surrogate u \<Longrightarrow> \<not> is_low_surrogate u \<Longrightarrow>
   utf8_roundtrip (u # r) = u # utf8_roundtrip r"
  by (cases r) simp_all

lemma well_formed_Cons:
  "\<not> is_high_surrogate u \<Longrightarrow> \<not> is_low_surrogate u \<Longrightarrow>
   well_formed (u # r) = well_formed r"
  by (cases r) simp_all

lemma utf8_roundtrip_js: "utf8_roundtrip (js s) = js s"
  by (induction s) (simp_all add: js_def utf8_roundtrip_Cons of_char_not_surrogate)

lemma well_formed_js: "well_formed (js s)"
  by (induction s) (simp_all add: js_def well_formed_Cons of_char_not_surrogate)

lemma utf8_roundtrip_well_formed: "well_formed s \<Longrightarrow> utf8_roundtrip s = s"
  by (induction s rule: well_formed.induct) (auto split: if_splits)

lemma js_inject: "js a = js b \<longleftrightarrow> a = b"
proof -
  have "inj (of_char :: char \<Rightarrow> code_unit)"
  proof (rule injI)
    fix x y :: char
    assume "(of_char x :: code_unit) = of_char y"
    then have "unat (of_char x :: code_unit) = unat (of_char y :: code_unit)" by simp
    then show "x = y" by (simp add: unat_of_char)
  qed
  then show ?thesis by (auto simp: js_def dest: inj_mapD)
qed

lemma js_Nil_iff: "js s = [] \<longleftrightarrow> s = []"
  by (simp add: js_def)

section \<open>Properties of the session store\<close>

lemma Session_findOne_None_iff:
  "Session_findOne c ss = None \<longleftrightarrow> utf8_roundtrip c \<notin> set (map s_code ss)"
  by (force simp: Session_findOne_def find_None_iff)

lemma Session_findOne_Some:
  "Session_findOne c ss = Some s \<Longrightarrow> s \<in> set ss \<and> s_code s = utf8_roundtrip c"
  by (auto simp: Session_findOne_def find_Some_iff)


lemma upsert_codes:
  "set (map s_code (Session_findOneAndUpdate t c (c, d) ss))
     = insert (utf8_roundtrip c) (set (map s_code ss))"
  by (induction ss) auto

lemma upsert_distinct:
  "distinct (map s_code ss) \<Longrightarrow> distinct (map s_code (Session_findOneAndUpdate t c (c, d) ss))"
proof (induction ss)
  case Nil
  then show ?case by simp
next
  case (Cons s ss)
  show ?case
  proof (cases "s_code s = utf8_roundtrip c")
    case True
    with Cons.prems show ?thesis by simp
  next
    case False
    with Cons have "distinct (map s_code (Session_findOneAndUpdate t c (c, d) ss))"
      and "s_code s \<notin> set (map s_code ss)"
      by simp_all
    with False show ?thesis
      using upsert_codes [of t c d ss] by auto
  qed
qed

lemma upsert_own:
  "distinct (map s_code ss) \<Longrightarrow>
   filter (\<lambda>s. s_code s = utf8_roundtrip c) (Session_findOneAndUpdate t c (c, d) ss)
     = [\<lparr>s_code = utf8_roundtrip c, s_deviceId = utf8_roundtrip d,
         s_createdAt = (case Session_findOne c ss of None \<Rightarrow> t | Some s \<Rightarrow> s_createdAt s)\<rparr>]"
proof (induction ss)
  case Nil
  then show ?case by (simp add: Session_findOne_def)
next
  case (Cons s ss)
  show ?case
  proof (cases "s_code s = utf8_roundtrip c")
    case True
    with Cons.prems have "utf8_roundtrip c \<notin> set (map s_code ss)" by auto
    then have "filter (\<lambda>s. s_code s = utf8_roundtrip c) ss = []"
      by (force simp: filter_empty_conv)
    with True show ?thesis
      by (simp add: Session_findOne_def)
  next
    case False
    with Cons show ?thesis
      by (simp add: Session_findOne_def)
  qed
qed


lemma deleteOne_distinct:
  "distinct (map s_code ss) \<Longrightarrow>
   Session_deleteOne (\<lambda>x. x = k) ss = filter (\<lambda>s. s_code s \<noteq> k) ss"
proof (induction ss)
  case Nil
  then show ?case by simp
next
  case (Cons s ss)
  show ?case
  proof (cases "s_code s = k")
    case True
    with Cons.prems have "k \<notin> set (map s_code ss)" by auto
    then have "filter (\<lambda>s. s_code s \<noteq> k) ss = ss"
      by (auto simp: filter_id_conv)
    with True show ?thesis by simp
  next
    case False
    with Cons show ?thesis by simp
  qed
qed

section \<open>The handlers, step by step\<close>

lemma respond_simps:
  "reply (respond n b d) = \<lparr>status = n, body = b\<rparr>"
  "db (respond n b d) = d"
  "console (respond n b d) = []"
  "sent (respond n b d) = []"
  by (simp_all add: respond_def)


lemma missing_JStr: "missing (Some (JStr s)) \<longleftrightarrow> s = []"
  by (simp add: missing_def)

lemma missing_None: "missing None"
  by (simp add: missing_def)

lemma verify_code_try_found:
  assumes "encrypt cfg c = Inr enc" and "Code_findOne enc (Code st) = Some a"
    and "\<not> fails e CodeFindOne" and "\<not> fails e SessionFindOne"
  shows "verify_code_try cfg e st (JStr c) deviceId =
     (if (case Session_findOne c (Session st) of
            None \<Rightarrow> False | Some s \<Rightarrow> JStr (s_deviceId s) \<noteq> deviceId)
      then Inr (respond 403 (error_body ''This code is already in use on another device.'') st)
      else (case cast_string cfg deviceId of
        Inl err \<Rightarrow> Inl err
      | Inr d \<Rightarrow>
       (case await e SessionFindOneAndUpdate
             (Session_findOneAndUpdate (now e) c (c, d) (Session st)) of
          Inl err \<Rightarrow> Inl err
        | Inr sessions \<Rightarrow>
            Inr (respond 200 (JObj [(js ''valid'', JBool True)])
                   (st\<lparr>Session := sessions\<rparr>)))))"
  using assms by (simp add: verify_code_try_def encrypt_value_def await_def)

lemma verify_code_strings:
  assumes "c \<noteq> []" and "d \<noteq> []"
  shows "verify_code cfg e st (Some (JStr c)) (Some (JStr d)) =
     (case verify_code_try cfg e st (JStr c) (JStr d) of
        Inr out \<Rightarrow> out
      | Inl err \<Rightarrow>
          (respond 500 (error_body ''Server error'') st)
            \<lparr>console := [LogError (js ''Code validation error:'') err]\<rparr>)"
  using assms by (simp add: verify_code_def missing_JStr)

section \<open>Concrete runs\<close>

lemma test_env_ok: "\<not> fails test_env op"
  by (simp add: test_env_def)

lemma encrypt_X1:
  "encrypt test_config (js ''X1'') = Inr (js ''3c556a6a626262626a6a6a6a72727272'')"
  by code_simp

lemma encrypt_ZZ:
  "encrypt test_config (js ''ZZ'') = Inr (js ''3e3e6a6a626262626a6a6a6a72727272'')"
  by code_simp

lemma Code_findOne_seeded:
  "Code_findOne (js ''3c556a6a626262626a6a6a6a72727272'') (Code seeded_db)
      = Some \<lparr>ac_code = js ''X1'', ac_encryptedCode = js ''3c556a6a626262626a6a6a6a72727272'',
                         ac_createdAt = 0\<rparr>"
  by (simp add: Code_findOne_def seeded_db_def utf8_roundtrip_js)

lemma Code_findOne_ZZ:
  "Code_findOne (js ''3e3e6a6a626262626a6a6a6a72727272'') (Code seeded_db) = None"
  by (simp add: Code_findOne_def seeded_db_def utf8_roundtrip_js js_inject)

lemma Code_bound_db: "Code bound_db = Code seeded_db"
  by (simp add: bound_db_def)

lemma Session_findOne_bound:
  "Session_findOne (js ''X1'') (Session bound_db)
     = Some \<lparr>s_code = js ''X1'', s_deviceId = js ''A'', s_createdAt = 5\<rparr>"
  by (simp add: Session_findOne_def bound_db_def utf8_roundtrip_js)

lemma Session_findOne_seeded: "Session_findOne c (Session seeded_db) = None"
  by (simp add: Session_findOne_def seeded_db_def)

lemma utf8_roundtrip_lone: "utf8_roundtrip [0x64, 0xD800] = [0x64, 0xFFFD]"
  by (simp add: is_high_surrogate_def is_low_surrogate_def)

section \<open>Verification\<close>

text \<open>
  C1 (as amended). For a verification request whose code and deviceId are non-empty
  strings and whose code's ciphertext is found in the Code Store, when no Session exists
  for the code or the existing Session has the request's deviceId, and the store calls
  complete: \<open>verify\<close> answers \<open>{valid: true}\<close>, and afterwards exactly one Session has
  that code; it is bound to that deviceId, both as the store keeps strings (a well-formed
  string as it is, an unpaired surrogate as U+FFFD). A Session created by the call has the
  current time as its creation timestamp; an existing Session keeps the timestamp it had
  (a re-login from the same device does not reset it). The uniqueness of session codes is
  kept.
\<close>

theorem verify_code_binds:
  assumes "c \<noteq> []" and "d \<noteq> []"
    and "encrypt cfg c = Inr enc" and "Code_findOne enc (Code st) = Some a"
    and "Session_findOne c (Session st) = None
         \<or> (\<exists>s. Session_findOne c (Session st) = Some s \<and> s_deviceId s = d)"
    and "distinct (map s_code (Session st))"
    and "\<not> fails e CodeFindOne" and "\<not> fails e SessionFindOne"
    and "\<not> fails e SessionFindOneAndUpdate"
  shows "reply (verify_code cfg e st (Some (JStr c)) (Some (JStr d)))
           = \<lparr>status = 200, body = JObj [(js ''valid'', JBool True)]\<rparr>
       \<and> filter (\<lambda>s. s_code s = utf8_roundtrip c)
            (Session (db (verify_code cfg e st (Some (JStr c)) (Some (JStr d)))))
           = [\<lparr>s_code = utf8_roundtrip c, s_deviceId = utf8_roundtrip d,
               s_createdAt = (case Session_findOne c (Session st) of
                                None \<Rightarrow> now e | Some s \<Rightarrow> s_createdAt s)\<rparr>]
       \<and> distinct (map s_code
            (Session (db (verify_code cfg e st (Some (JStr c)) (Some (JStr d))))))
       \<and> (well_formed c \<longrightarrow> utf8_roundtrip c = c)
       \<and> (well_formed d \<longrightarrow> utf8_roundtrip d = d)"
proof -
  have noconf: "\<not> (case Session_findOne c (Session st) of None \<Rightarrow> False
                    | Some s \<Rightarrow> JStr (s_deviceId s) \<noteq> JStr d)"
    using assms(5) by auto
  have "verify_code_try cfg e st (JStr c) (JStr d) =
      Inr (respond 200 (JObj [(js ''valid'', JBool True)])
            (st\<lparr>Session := Session_findOneAndUpdate (now e) c (c, d) (Session st)\<rparr>))"
    using verify_code_try_found [OF assms(3,4,7,8), of "JStr d"] noconf assms(9)
    by (simp add: await_def cast_string_def)
  then have out: "verify_code cfg e st (Some (JStr c)) (Some (JStr d)) =
      respond 200 (JObj [(js ''valid'', JBool True)])
            (st\<lparr>Session := Session_findOneAndUpdate (now e) c (c, d) (Session st)\<rparr>)"
    by (simp add: verify_code_strings [OF assms(1,2)])
  show ?thesis
    unfolding out using assms(6)
    by (simp add: respond_simps upsert_own upsert_distinct utf8_roundtrip_well_formed)
qed

theorem verify_code_binds_witness:
  "reply (verify_code test_config test_env bound_db (Some (JStr (js ''X1''))) (Some (JStr (js ''A''))))
     = \<lparr>status = 200, body = JObj [(js ''valid'', JBool True)]\<rparr>
   \<and> filter (\<lambda>s. s_code s = js ''X1'')
       (Session (db (verify_code test_config test_env bound_db
          (Some (JStr (js ''X1''))) (Some (JStr (js ''A''))))))
     = [\<lparr>s_code = js ''X1'', s_deviceId = js ''A'', s_createdAt = 5\<rparr>]"
proof -
  have 1: "js ''X1'' \<noteq> []" and 2: "js ''A'' \<noteq> []"
    by (simp_all add: js_Nil_iff)
  have 4: "Code_findOne (js ''3c556a6a626262626a6a6a6a72727272'') (Code bound_db)
      = Some \<lparr>ac_code = js ''X1'', ac_encryptedCode = js ''3c556a6a626262626a6a6a6a72727272'',
                         ac_createdAt = 0\<rparr>"
    by (simp only: Code_bound_db Code_findOne_seeded)
  have 5: "Session_findOne (js ''X1'') (Session bound_db) = None
         \<or> (\<exists>s. Session_findOne (js ''X1'') (Session bound_db) = Some s \<and> s_deviceId s = js ''A'')"
    by (simp add: Session_findOne_bound)
  have 6: "distinct (map s_code (Session bound_db))"
    by (simp add: bound_db_def)
  from verify_code_binds [OF 1 2 encrypt_X1 4 5 6 test_env_ok test_env_ok test_env_ok]
  show ?thesis
    by (simp add: Session_findOne_bound utf8_roundtrip_js)
qed

text \<open>
  A re-login from the bound device at time 1000 answers \<open>{valid: true}\<close> and leaves the
  Session's creation timestamp at 5: it is not reset. And a first login with a deviceId
  that ends in an unpaired surrogate binds the code to another string than the request's.
\<close>

theorem verify_code_timestamp_counterexample:
  "reply (verify_code test_config test_env bound_db (Some (JStr (js ''X1''))) (Some (JStr (js ''A''))))
     = \<lparr>status = 200, body = JObj [(js ''valid'', JBool True)]\<rparr>
   \<and> Session (db (verify_code test_config test_env bound_db
         (Some (JStr (js ''X1''))) (Some (JStr (js ''A'')))))
     = [\<lparr>s_code = js ''X1'', s_deviceId = js ''A'', s_createdAt = 5\<rparr>]
   \<and> now test_env = 1000
   \<and> Session (db (verify_code test_config test_env seeded_db
         (Some (JStr (js ''X1''))) (Some (JStr [0x64, 0xD800]))))
     = [\<lparr>s_code = js ''X1'', s_deviceId = [0x64, 0xFFFD], s_createdAt = 1000\<rparr>]"
proof -
  have a: "verify_code_try test_config test_env bound_db (JStr (js ''X1'')) (JStr (js ''A''))
      = Inr (respond 200 (JObj [(js ''valid'', JBool True)])
          (bound_db\<lparr>Session := Session_findOneAndUpdate 1000 (js ''X1'') (js ''X1'', js ''A'')
             (Session bound_db)\<rparr>))"
    by (simp add: verify_code_try_def encrypt_value_def encrypt_X1 await_def test_env_def
        Code_bound_db Code_findOne_seeded Session_findOne_bound cast_string_def)
  have b: "verify_code_try test_config test_env seeded_db (JStr (js ''X1'')) (JStr [0x64, 0xD800])
      = Inr (respond 200 (JObj [(js ''valid'', JBool True)])
          (seeded_db\<lparr>Session := Session_findOneAndUpdate 1000 (js ''X1'')
             (js ''X1'', [0x64, 0xD800]) (Session seeded_db)\<rparr>))"
    by (simp add: verify_code_try_def encrypt_value_def encrypt_X1 await_def test_env_def
        Code_findOne_seeded Session_findOne_seeded cast_string_def)
  have "Session_findOneAndUpdate 1000 (js ''X1'') (js ''X1'', js ''A'') (Session bound_db)
      = [\<lparr>s_code = js ''X1'', s_deviceId = js ''A'', s_createdAt = 5\<rparr>]"
    by (simp add: bound_db_def utf8_roundtrip_js)
  moreover have "Session_findOneAndUpdate 1000 (js ''X1'') (js ''X1'', [0x64, 0xD800])
      (Session seeded_db)
      = [\<lparr>s_code = js ''X1'', s_deviceId = [0x64, 0xFFFD], s_createdAt = 1000\<rparr>]"
    by (simp add: seeded_db_def utf8_roundtrip_js utf8_roundtrip_lone del: utf8_roundtrip.simps)
  moreover have "js ''X1'' \<noteq> []" "js ''A'' \<noteq> []"
    by (simp_all add: js_Nil_iff)
  moreover have "now test_env = 1000"
    by (simp add: test_env_def)
  ultimately show ?thesis
    by (simp add: verify_code_strings a b respond_simps)
qed

text \<open>
  C2 (as amended). For a verification request with non-empty code and non-empty deviceId
  whose code's ciphertext is found in the Code Store, when a Session exists for the code
  with another deviceId and the two lookups complete: \<open>verify\<close> answers with status 403 and
  the device-conflict error, and the store, in particular the existing Session and its
  deviceId, is unchanged.
\<close>

theorem verify_code_conflict:
  assumes "c \<noteq> []" and "d \<noteq> []"
    and "encrypt cfg c = Inr enc" and "Code_findOne enc (Code st) = Some a"
    and "Session_findOne c (Session st) = Some s" and "s_deviceId s \<noteq> d"
    and "\<not> fails e CodeFindOne" and "\<not> fails e SessionFindOne"
  shows "reply (verify_code cfg e st (Some (JStr c)) (Some (JStr d)))
           = \<lparr>status = 403,
              body = JObj [(js ''error'',
                            JStr (js ''This code is already in use on another device.''))]\<rparr>
       \<and> db (verify_code cfg e st (Some (JStr c)) (Some (JStr d))) = st
       \<and> Session_findOne c (Session (db (verify_code cfg e st (Some (JStr c)) (Some (JStr d)))))
           = Some s"
proof -
  have "verify_code_try cfg e st (JStr c) (JStr d) =
      Inr (respond 403 (error_body ''This code is already in use on another device.'') st)"
    using verify_code_try_found [OF assms(3,4,7,8), of "JStr d"] assms(5,6) by simp
  then have "verify_code cfg e st (Some (JStr c)) (Some (JStr d)) =
      respond 403 (error_body ''This code is already in use on another device.'') st"
    by (simp add: verify_code_strings [OF assms(1,2)])
  then show ?thesis
    using assms(5) by (simp add: respond_simps error_body_def)
qed

theorem verify_code_conflict_witness:
  "reply (verify_code test_config test_env bound_db (Some (JStr (js ''X1''))) (Some (JStr (js ''B''))))
     = \<lparr>status = 403,
        body = JObj [(js ''error'',
                      JStr (js ''This code is already in use on another device.''))]\<rparr>
   \<and> db (verify_code test_config test_env bound_db (Some (JStr (js ''X1''))) (Some (JStr (js ''B''))))
     = bound_db"
proof -
  have 1: "js ''X1'' \<noteq> []" and 2: "js ''B'' \<noteq> []"
    by (simp_all add: js_Nil_iff)
  have 4: "Code_findOne (js ''3c556a6a626262626a6a6a6a72727272'') (Code bound_db)
      = Some \<lparr>ac_code = js ''X1'', ac_encryptedCode = js ''3c556a6a626262626a6a6a6a72727272'',
                         ac_createdAt = 0\<rparr>"
    by (simp only: Code_bound_db Code_findOne_seeded)
  have 6: "s_deviceId \<lparr>s_code = js ''X1'', s_deviceId = js ''A'', s_createdAt = 5\<rparr> \<noteq> js ''B''"
    by (simp add: js_inject)
  from verify_code_conflict [OF 1 2 encrypt_X1 4 Session_findOne_bound 6 test_env_ok test_env_ok]
  show ?thesis
    by simp
qed

text \<open>The claim as stated fails for an empty deviceId: the request is refused with status 400.\<close>

theorem verify_code_conflict_counterexample:
  "Code_findOne (js ''3c556a6a626262626a6a6a6a72727272'') (Code bound_db)
      = Some \<lparr>ac_code = js ''X1'', ac_encryptedCode = js ''3c556a6a626262626a6a6a6a72727272'',
                         ac_createdAt = 0\<rparr>
   \<and> encrypt test_config (js ''X1'') = Inr (js ''3c556a6a626262626a6a6a6a72727272'')
   \<and> Session_findOne (js ''X1'') (Session bound_db)
     = Some \<lparr>s_code = js ''X1'', s_deviceId = js ''A'', s_createdAt = 5\<rparr>
   \<and> js ''A'' \<noteq> js ''''
   \<and> reply (verify_code test_config test_env bound_db (Some (JStr (js ''X1''))) (Some (JStr (js ''''))))
     = \<lparr>status = 400, body = JObj [(js ''error'', JStr (js ''Code and deviceId required''))]\<rparr>"
proof -
  have "reply (verify_code test_config test_env bound_db (Some (JStr (js ''X1''))) (Some (JStr (js ''''))))
     = \<lparr>status = 400, body = JObj [(js ''error'', JStr (js ''Code and deviceId required''))]\<rparr>"
    by (simp add: verify_code_def missing_JStr js_Nil_iff respond_simps error_body_def)
  moreover have "js ''A'' \<noteq> js ''''"
    by (simp add: js_inject)
  ultimately show ?thesis
    using encrypt_X1 Session_findOne_bound Code_findOne_seeded Code_bound_db by simp
qed

text \<open>
  C3 (as amended). For a verification request with non-empty code and non-empty deviceId
  whose code's ciphertext matches no AccessCode, when the lookup completes: \<open>verify\<close>
  answers \<open>{valid: false}\<close> with status 200, whatever the deviceId, and the store is
  unchanged: no Session is created or modified.
\<close>

theorem verify_code_unknown:
  assumes "c \<noteq> []" and "d \<noteq> []"
    and "encrypt cfg c = Inr enc" and "Code_findOne enc (Code st) = None"
    and "\<not> fails e CodeFindOne"
  shows "reply (verify_code cfg e st (Some (JStr c)) (Some (JStr d)))
           = \<lparr>status = 200, body = JObj [(js ''valid'', JBool False)]\<rparr>
       \<and> db (verify_code cfg e st (Some (JStr c)) (Some (JStr d))) = st"
proof -
  have "verify_code_try cfg e st (JStr c) (JStr d)
      = Inr (respond 200 (JObj [(js ''valid'', JBool False)]) st)"
    using assms(3,4,5) by (simp add: verify_code_try_def encrypt_value_def await_def)
  then show ?thesis
    by (simp add: verify_code_strings [OF assms(1,2)] respond_simps)
qed

theorem verify_code_unknown_witness:
  "reply (verify_code test_config test_env seeded_db (Some (JStr (js ''ZZ''))) (Some (JStr (js ''A''))))
     = \<lparr>status = 200, body = JObj [(js ''valid'', JBool False)]\<rparr>
   \<and> db (verify_code test_config test_env seeded_db (Some (JStr (js ''ZZ''))) (Some (JStr (js ''A''))))
     = seeded_db"
proof -
  have 1: "js ''ZZ'' \<noteq> []" and 2: "js ''A'' \<noteq> []"
    by (simp_all add: js_Nil_iff)
  from verify_code_unknown [OF 1 2 encrypt_ZZ Code_findOne_ZZ test_env_ok]
  show ?thesis .
qed

text \<open>
  The claim as stated fails for an empty or absent deviceId: the request is refused with
  status 400, although the code's ciphertext matches no AccessCode.
\<close>

theorem verify_code_unknown_counterexample:
  "encrypt test_config (js ''ZZ'') = Inr (js ''3e3e6a6a626262626a6a6a6a72727272'')
   \<and> Code_findOne (js ''3e3e6a6a626262626a6a6a6a72727272'') (Code seeded_db) = None
   \<and> reply (verify_code test_config test_env seeded_db (Some (JStr (js ''ZZ''))) (Some (JStr (js ''''))))
     = \<lparr>status = 400, body = JObj [(js ''error'', JStr (js ''Code and deviceId required''))]\<rparr>
   \<and> reply (verify_code test_config test_env seeded_db (Some (JStr (js ''ZZ''))) None)
     = \<lparr>status = 400, body = JObj [(js ''error'', JStr (js ''Code and deviceId required''))]\<rparr>"
proof -
  have "reply (verify_code test_config test_env seeded_db (Some (JStr (js ''ZZ''))) (Some (JStr (js ''''))))
     = \<lparr>status = 400, body = JObj [(js ''error'', JStr (js ''Code and deviceId required''))]\<rparr>"
    by (simp add: verify_code_def missing_JStr js_Nil_iff respond_simps error_body_def)
  moreover have "reply (verify_code test_config test_env seeded_db (Some (JStr (js ''ZZ''))) None)
     = \<lparr>status = 400, body = JObj [(js ''error'', JStr (js ''Code and deviceId required''))]\<rparr>"
    by (simp add: verify_code_def missing_None respond_simps error_body_def)
  ultimately show ?thesis
    using encrypt_ZZ Code_findOne_ZZ by simp
qed

section \<open>Logout\<close>

lemma logout_string:
  assumes "c \<noteq> []" and "\<not> fails e SessionDeleteOne"
  shows "logout cfg e st (Some (JStr c)) =
     respond 200 (JObj [(js ''success'', JBool True)])
       (st\<lparr>Session := Session_deleteOne (\<lambda>x. x = utf8_roundtrip c) (Session st)\<rparr>)"
  using assms by (simp add: logout_def logout_try_def missing_JStr await_def)

text \<open>
  C5. \<open>logout\<close> with a code that is a non-empty string, when the store's delete completes,
  answers \<open>{success: true}\<close> and leaves no Session for that code, whether or not one
  existed; nothing is checked about the device or about the Code Store, and the other
  Sessions and the Code Store are unchanged. With an absent or empty code the answer is
  the validation error with status 400, and the store is unchanged.
\<close>

theorem logout_deletes:
  "(c \<noteq> [] \<and> \<not> fails e SessionDeleteOne \<and> distinct (map s_code (Session st)) \<longrightarrow>
      reply (logout cfg e st (Some (JStr c)))
        = \<lparr>status = 200, body = JObj [(js ''success'', JBool True)]\<rparr>
      \<and> Session_findOne c (Session (db (logout cfg e st (Some (JStr c))))) = None
      \<and> Session (db (logout cfg e st (Some (JStr c))))
          = filter (\<lambda>s. s_code s \<noteq> utf8_roundtrip c) (Session st)
      \<and> Code (db (logout cfg e st (Some (JStr c)))) = Code st
      \<and> (well_formed c \<longrightarrow> utf8_roundtrip c = c))
   \<and> (missing code \<longrightarrow>
      reply (logout cfg e st code)
        = \<lparr>status = 400, body = JObj [(js ''error'', JStr (js ''Code required''))]\<rparr>
      \<and> db (logout cfg e st code) = st)"
proof (intro conjI impI)
  assume a: "c \<noteq> [] \<and> \<not> fails e SessionDeleteOne \<and> distinct (map s_code (Session st))"
  then have out: "logout cfg e st (Some (JStr c)) =
      respond 200 (JObj [(js ''success'', JBool True)])
        (st\<lparr>Session := filter (\<lambda>s. s_code s \<noteq> utf8_roundtrip c) (Session st)\<rparr>)"
    by (simp add: logout_string deleteOne_distinct)
  show "reply (logout cfg e st (Some (JStr c)))
      = \<lparr>status = 200, body = JObj [(js ''success'', JBool True)]\<rparr>"
    by (simp add: out respond_simps)
  show "Session_findOne c (Session (db (logout cfg e st (Some (JStr c))))) = None"
    by (auto simp: out respond_simps Session_findOne_None_iff)
  show "Session (db (logout cfg e st (Some (JStr c))))
      = filter (\<lambda>s. s_code s \<noteq> utf8_roundtrip c) (Session st)"
    by (simp add: out respond_simps)
  show "Code (db (logout cfg e st (Some (JStr c)))) = Code st"
    by (simp add: out respond_simps)
next
  assume "well_formed c"
  then show "utf8_roundtrip c = c" by (rule utf8_roundtrip_well_formed)
next
  assume "missing code"
  then have out: "logout cfg e st code = respond 400 (error_body ''Code required'') st"
    by (simp add: logout_def)
  show "reply (logout cfg e st code)
        = \<lparr>status = 400, body = JObj [(js ''error'', JStr (js ''Code required''))]\<rparr>"
    by (simp add: out respond_simps error_body_def)
  show "db (logout cfg e st code) = st"
    by (simp add: out respond_simps)
qed

theorem logout_deletes_witness:
  "reply (logout test_config test_env bound_db (Some (JStr (js ''X1''))))
      = \<lparr>status = 200, body = JObj [(js ''success'', JBool True)]\<rparr>
   \<and> Session (db (logout test_config test_env bound_db (Some (JStr (js ''X1''))))) = []
   \<and> reply (logout test_config test_env seeded_db (Some (JStr (js ''X1''))))
      = \<lparr>status = 200, body = JObj [(js ''success'', JBool True)]\<rparr>
   \<and> Session (db (logout test_config test_env seeded_db (Some (JStr (js ''X1''))))) = []
   \<and> reply (logout test_config test_env bound_db None)
      = \<lparr>status = 400, body = JObj [(js ''error'', JStr (js ''Code required''))]\<rparr>
   \<and> db (logout test_config test_env bound_db None) = bound_db"
proof -
  have 1: "js ''X1'' \<noteq> [] \<and> \<not> fails test_env SessionDeleteOne
      \<and> distinct (map s_code (Session bound_db))"
    by (simp add: js_Nil_iff test_env_ok bound_db_def)
  have 2: "js ''X1'' \<noteq> [] \<and> \<not> fails test_env SessionDeleteOne
      \<and> distinct (map s_code (Session seeded_db))"
    by (simp add: js_Nil_iff test_env_ok seeded_db_def)
  have b: "filter (\<lambda>s. s_code s \<noteq> utf8_roundtrip (js ''X1'')) (Session bound_db) = []"
    by (simp add: bound_db_def utf8_roundtrip_js)
  have s: "filter (\<lambda>s. s_code s \<noteq> utf8_roundtrip (js ''X1'')) (Session seeded_db) = []"
    by (simp add: seeded_db_def)
  from logout_deletes [of "js ''X1''" test_env bound_db test_config None] 1 b
    logout_deletes [of "js ''X1''" test_env seeded_db test_config None] 2 s missing_None
  show ?thesis
    by simp
qed

text \<open>
  C6 (as amended). For a code found in the Code Store and bound to a device A, \<open>logout\<close>
  followed by \<open>verify\<close> with any non-empty deviceId B, equal to A or not, answers
  \<open>{success: true}\<close> and then \<open>{valid: true}\<close>, and leaves exactly one Session for the code,
  created at the time of the verification and bound to B as the store keeps strings: to B
  itself when B is well-formed, with U+FFFD in the place of every unpaired surrogate
  otherwise (the store calls completing).
\<close>

theorem logout_then_verify:
  assumes "c \<noteq> []" and "dB \<noteq> []"
    and "encrypt cfg c = Inr enc" and "Code_findOne enc (Code st) = Some a"
    and "Session_findOne c (Session st) = Some s" and "s_deviceId s = dA"
    and "distinct (map s_code (Session st))"
    and "\<not> fails e1 SessionDeleteOne"
    and "\<not> fails e2 CodeFindOne" and "\<not> fails e2 SessionFindOne"
    and "\<not> fails e2 SessionFindOneAndUpdate"
  shows "reply (logout cfg e1 st (Some (JStr c)))
           = \<lparr>status = 200, body = JObj [(js ''success'', JBool True)]\<rparr>
       \<and> reply (verify_code cfg e2 (db (logout cfg e1 st (Some (JStr c))))
            (Some (JStr c)) (Some (JStr dB)))
           = \<lparr>status = 200, body = JObj [(js ''valid'', JBool True)]\<rparr>
       \<and> filter (\<lambda>s. s_code s = utf8_roundtrip c)
            (Session (db (verify_code cfg e2 (db (logout cfg e1 st (Some (JStr c))))
               (Some (JStr c)) (Some (JStr dB)))))
           = [\<lparr>s_code = utf8_roundtrip c, s_deviceId = utf8_roundtrip dB, s_createdAt = now e2\<rparr>]
       \<and> (well_formed dB \<longrightarrow> utf8_roundtrip dB = dB)
       \<and> (well_formed c \<longrightarrow> utf8_roundtrip c = c)"
proof -
  let ?st1 = "db (logout cfg e1 st (Some (JStr c)))"
  have out1: "logout cfg e1 st (Some (JStr c)) =
      respond 200 (JObj [(js ''success'', JBool True)])
        (st\<lparr>Session := filter (\<lambda>s. s_code s \<noteq> utf8_roundtrip c) (Session st)\<rparr>)"
    using assms(1,7,8) by (simp add: logout_string deleteOne_distinct)
  have code1: "Code_findOne enc (Code ?st1) = Some a"
    using assms(4) by (simp add: out1 respond_simps)
  have none1: "Session_findOne c (Session ?st1) = None"
    by (auto simp: out1 respond_simps Session_findOne_None_iff)
  have dist1: "distinct (map s_code (Session ?st1))"
    using assms(7) by (simp add: out1 respond_simps distinct_map_filter)
  have try2: "verify_code_try cfg e2 ?st1 (JStr c) (JStr dB) =
      Inr (respond 200 (JObj [(js ''valid'', JBool True)])
            (?st1\<lparr>Session := Session_findOneAndUpdate (now e2) c (c, dB) (Session ?st1)\<rparr>))"
    using verify_code_try_found [OF assms(3) code1 assms(9,10), of "JStr dB"] none1 assms(11)
    by (simp add: await_def cast_string_def)
  then have out2: "verify_code cfg e2 ?st1 (Some (JStr c)) (Some (JStr dB)) =
      respond 200 (JObj [(js ''valid'', JBool True)])
            (?st1\<lparr>Session := Session_findOneAndUpdate (now e2) c (c, dB) (Session ?st1)\<rparr>)"
    by (simp add: verify_code_strings [OF assms(1,2)])
  have own: "filter (\<lambda>s. s_code s = utf8_roundtrip c)
        (Session_findOneAndUpdate (now e2) c (c, dB) (Session ?st1))
      = [\<lparr>s_code = utf8_roundtrip c, s_deviceId = utf8_roundtrip dB, s_createdAt = now e2\<rparr>]"
    using upsert_own [OF dist1, of c "now e2" dB] none1 by simp
  have r1: "reply (logout cfg e1 st (Some (JStr c)))
           = \<lparr>status = 200, body = JObj [(js ''success'', JBool True)]\<rparr>"
    by (simp add: out1 respond_simps)
  have r2: "reply (verify_code cfg e2 ?st1 (Some (JStr c)) (Some (JStr dB)))
           = \<lparr>status = 200, body = JObj [(js ''valid'', JBool True)]\<rparr>"
    by (simp add: out2 respond_simps)
  have r3: "filter (\<lambda>s. s_code s = utf8_roundtrip c)
            (Session (db (verify_code cfg e2 ?st1 (Some (JStr c)) (Some (JStr dB)))))
           = [\<lparr>s_code = utf8_roundtrip c, s_deviceId = utf8_roundtrip dB, s_createdAt = now e2\<rparr>]"
    by (simp add: out2 respond_simps own)
  from r1 r2 r3 show ?thesis
    by (simp add: utf8_roundtrip_well_formed)
qed

lemma bound_db_facts:
  "Code_findOne (js ''3c556a6a626262626a6a6a6a72727272'') (Code bound_db)
      = Some \<lparr>ac_code = js ''X1'', ac_encryptedCode = js ''3c556a6a626262626a6a6a6a72727272'',
                         ac_createdAt = 0\<rparr>"
  "distinct (map s_code (Session bound_db))"
  by (simp_all add: Code_bound_db Code_findOne_seeded) (simp add: bound_db_def)

theorem logout_then_verify_witness:
  "reply (logout test_config test_env bound_db (Some (JStr (js ''X1''))))
     = \<lparr>status = 200, body = JObj [(js ''success'', JBool True)]\<rparr>
   \<and> reply (verify_code test_config test_env
        (db (logout test_config test_env bound_db (Some (JStr (js ''X1'')))))
        (Some (JStr (js ''X1''))) (Some (JStr (js ''B''))))
     = \<lparr>status = 200, body = JObj [(js ''valid'', JBool True)]\<rparr>
   \<and> filter (\<lambda>s. s_code s = js ''X1'')
        (Session (db (verify_code test_config test_env
           (db (logout test_config test_env bound_db (Some (JStr (js ''X1'')))))
           (Some (JStr (js ''X1''))) (Some (JStr (js ''B''))))))
     = [\<lparr>s_code = js ''X1'', s_deviceId = js ''B'', s_createdAt = 1000\<rparr>]"
proof -
  have 1: "js ''X1'' \<noteq> []" and 2: "js ''B'' \<noteq> []"
    by (simp_all add: js_Nil_iff)
  have 6: "s_deviceId \<lparr>s_code = js ''X1'', s_deviceId = js ''A'', s_createdAt = 5\<rparr> = js ''A''"
    by simp
  have n: "now test_env = 1000"
    by (simp add: test_env_def)
  from logout_then_verify [OF 1 2 encrypt_X1 bound_db_facts(1) Session_findOne_bound 6
      bound_db_facts(2) test_env_ok test_env_ok test_env_ok test_env_ok]
  show ?thesis
    by (simp only: n utf8_roundtrip_js)
qed

text \<open>
  After a logout, a verification with a deviceId that ends in an unpaired surrogate is
  answered \<open>{valid: true}\<close>, but the Session is bound to another string than that deviceId.
\<close>

theorem logout_then_verify_counterexample:
  "reply (verify_code test_config test_env
        (db (logout test_config test_env bound_db (Some (JStr (js ''X1'')))))
        (Some (JStr (js ''X1''))) (Some (JStr [0x64, 0xD800])))
     = \<lparr>status = 200, body = JObj [(js ''valid'', JBool True)]\<rparr>
   \<and> Session (db (verify_code test_config test_env
           (db (logout test_config test_env bound_db (Some (JStr (js ''X1'')))))
           (Some (JStr (js ''X1''))) (Some (JStr [0x64, 0xD800]))))
     = [\<lparr>s_code = js ''X1'', s_deviceId = [0x64, 0xFFFD], s_createdAt = 1000\<rparr>]
   \<and> [0x64, 0xFFFD] \<noteq> [0x64, 0xD800 :: code_unit]"
proof -
  have 1: "js ''X1'' \<noteq> []"
    by (simp add: js_Nil_iff)
  have lo: "db (logout test_config test_env bound_db (Some (JStr (js ''X1'')))) = seeded_db"
    by (simp add: logout_string [OF 1 test_env_ok] respond_simps bound_db_def seeded_db_def
        utf8_roundtrip_js)
  have b: "verify_code_try test_config test_env seeded_db (JStr (js ''X1'')) (JStr [0x64, 0xD800])
      = Inr (respond 200 (JObj [(js ''valid'', JBool True)])
          (seeded_db\<lparr>Session := Session_findOneAndUpdate 1000 (js ''X1'')
             (js ''X1'', [0x64, 0xD800]) (Session seeded_db)\<rparr>))"
    by (simp add: verify_code_try_def encrypt_value_def encrypt_X1 await_def test_env_def
        Code_findOne_seeded Session_findOne_seeded cast_string_def)
  have u: "Session_findOneAndUpdate 1000 (js ''X1'') (js ''X1'', [0x64, 0xD800])
      (Session seeded_db)
      = [\<lparr>s_code = js ''X1'', s_deviceId = [0x64, 0xFFFD], s_createdAt = 1000\<rparr>]"
    by (simp add: seeded_db_def utf8_roundtrip_js utf8_roundtrip_lone del: utf8_roundtrip.simps)
  have 2: "[0x64, 0xD800 :: code_unit] \<noteq> []"
    by simp
  show ?thesis
    by (simp add: lo verify_code_strings [OF 1 2] b u respond_simps)
qed

section \<open>Chat proxy\<close>

text \<open>
  C9. A chat request whose \<open>messages\<close> passes the handler's test, as every sequence does,
  sends exactly one request: a POST to
  \<open>https://api.openai.com/v1/chat/completions\<close>, with the configured API key as bearer
  token, whose body holds the messages unmodified with the model \<open>gpt-3.5-turbo\<close>, the
  temperature 0.8 and 150 as maximum token count. The upstream's response body is relayed
  as it is with status 200; whatever the upstream error, the answer is status 500 with
  the same generic body. Without \<open>messages\<close> the answer is the validation error with
  status 400 and nothing is sent.
\<close>

theorem chat_proxy:
  "(truthy m \<longrightarrow>
      sent (chat cfg e st (Some m))
        = [\<lparr>url = js ''https://api.openai.com/v1/chat/completions'',
            data = JObj [(js ''model'', JStr (js ''gpt-3.5-turbo'')), (js ''messages'', m),
                         (js ''temperature'', JNum (8 / 10)), (js ''max_tokens'', JNum 150)],
            headers = [(js ''Authorization'', js ''Bearer '' @ OPENAI_API_KEY cfg),
                       (js ''Content-Type'', js ''application/json'')]\<rparr>]
      \<and> (\<forall>d. upstream e
               \<lparr>url = js ''https://api.openai.com/v1/chat/completions'',
                data = JObj [(js ''model'', JStr (js ''gpt-3.5-turbo'')), (js ''messages'', m),
                             (js ''temperature'', JNum (8 / 10)), (js ''max_tokens'', JNum 150)],
                headers = [(js ''Authorization'', js ''Bearer '' @ OPENAI_API_KEY cfg),
                           (js ''Content-Type'', js ''application/json'')]\<rparr> = Inr d \<longrightarrow>
             reply (chat cfg e st (Some m)) = \<lparr>status = 200, body = d\<rparr>)
      \<and> (\<forall>err. upstream e
               \<lparr>url = js ''https://api.openai.com/v1/chat/completions'',
                data = JObj [(js ''model'', JStr (js ''gpt-3.5-turbo'')), (js ''messages'', m),
                             (js ''temperature'', JNum (8 / 10)), (js ''max_tokens'', JNum 150)],
                headers = [(js ''Authorization'', js ''Bearer '' @ OPENAI_API_KEY cfg),
                           (js ''Content-Type'', js ''application/json'')]\<rparr> = Inl err \<longrightarrow>
             reply (chat cfg e st (Some m))
               = \<lparr>status = 500,
                  body = JObj [(js ''error'', JStr (js ''Failed to generate response''))]\<rparr>))
   \<and> truthy (JArr ms)
   \<and> reply (chat cfg e st None)
        = \<lparr>status = 400, body = JObj [(js ''error'', JStr (js ''Messages required''))]\<rparr>
   \<and> sent (chat cfg e st None) = []"
proof -
  let ?req = "\<lparr>url = js ''https://api.openai.com/v1/chat/completions'',
                data = JObj [(js ''model'', JStr (js ''gpt-3.5-turbo'')), (js ''messages'', m),
                             (js ''temperature'', JNum (8 / 10)), (js ''max_tokens'', JNum 150)],
                headers = [(js ''Authorization'', js ''Bearer '' @ OPENAI_API_KEY cfg),
                           (js ''Content-Type'', js ''application/json'')]\<rparr>"
  have req: "chat_request cfg m = ?req"
    by (simp add: chat_request_def)
  have s: "sent (chat cfg e st (Some m)) = [?req]" if "truthy m"
    using that unfolding req [symmetric]
    by (cases "upstream e (chat_request cfg m)") (simp_all add: chat_def respond_def)
  have ok: "reply (chat cfg e st (Some m)) = \<lparr>status = 200, body = d\<rparr>"
    if "truthy m" "upstream e ?req = Inr d" for d
    using that unfolding req [symmetric] by (simp add: chat_def respond_def)
  have ko: "reply (chat cfg e st (Some m))
      = \<lparr>status = 500, body = JObj [(js ''error'', JStr (js ''Failed to generate response''))]\<rparr>"
    if "truthy m" "upstream e ?req = Inl err" for err
    using that unfolding req [symmetric] by (simp add: chat_def respond_def error_body_def)
  have none: "reply (chat cfg e st None)
        = \<lparr>status = 400, body = JObj [(js ''error'', JStr (js ''Messages required''))]\<rparr>"
    "sent (chat cfg e st None) = []"
    by (simp_all add: chat_def respond_def error_body_def)
  from s ok ko none show ?thesis
    by simp
qed

theorem chat_proxy_witness:
  "sent (chat test_config echo_env seeded_db (Some hi_messages))
     = [\<lparr>url = js ''https://api.openai.com/v1/chat/completions'',
         data = JObj [(js ''model'', JStr (js ''gpt-3.5-turbo'')), (js ''messages'', hi_messages),
                      (js ''temperature'', JNum (8 / 10)), (js ''max_tokens'', JNum 150)],
         headers = [(js ''Authorization'', js ''Bearer sk-test''),
                    (js ''Content-Type'', js ''application/json'')]\<rparr>]
   \<and> reply (chat test_config echo_env seeded_db (Some hi_messages))
     = \<lparr>status = 200,
        body = JObj [(js ''model'', JStr (js ''gpt-3.5-turbo'')), (js ''messages'', hi_messages),
                  (js ''temperature'', JNum (8 / 10)), (js ''max_tokens'', JNum 150)]\<rparr>
   \<and> reply (chat test_config test_env seeded_db (Some hi_messages))
     = \<lparr>status = 500,
        body = JObj [(js ''error'', JStr (js ''Failed to generate response''))]\<rparr>"
proof -
  let ?req = "\<lparr>url = js ''https://api.openai.com/v1/chat/completions'',
         data = JObj [(js ''model'', JStr (js ''gpt-3.5-turbo'')), (js ''messages'', hi_messages),
                      (js ''temperature'', JNum (8 / 10)), (js ''max_tokens'', JNum 150)],
         headers = [(js ''Authorization'', js ''Bearer '' @ OPENAI_API_KEY test_config),
                    (js ''Content-Type'', js ''application/json'')]\<rparr>"
  have t: "truthy hi_messages"
    by (simp add: hi_messages_def)
  have k: "js ''Bearer '' @ OPENAI_API_KEY test_config = js ''Bearer sk-test''"
    by (simp add: test_config_def js_def)
  have up: "upstream echo_env ?req
      = Inr (JObj [(js ''model'', JStr (js ''gpt-3.5-turbo'')), (js ''messages'', hi_messages),
                  (js ''temperature'', JNum (8 / 10)), (js ''max_tokens'', JNum 150)])"
    by (simp add: echo_env_def)
  have down: "upstream test_env ?req
      = Inl \<lparr>error_response_data = Some (JStr (js ''quota exceeded'')),
                             error_message = js ''Request failed''\<rparr>"
    by (simp add: test_env_def)
  from chat_proxy [of hi_messages test_config echo_env seeded_db "[]"] t up
  have a: "sent (chat test_config echo_env seeded_db (Some hi_messages)) = [?req]
   \<and> reply (chat test_config echo_env seeded_db (Some hi_messages))
     = \<lparr>status = 200,
        body = JObj [(js ''model'', JStr (js ''gpt-3.5-turbo'')), (js ''messages'', hi_messages),
                  (js ''temperature'', JNum (8 / 10)), (js ''max_tokens'', JNum 150)]\<rparr>"
    by blast
  from chat_proxy [of hi_messages test_config test_env seeded_db "[]"] t down
  have b: "reply (chat test_config test_env seeded_db (Some hi_messages))
     = \<lparr>status = 500,
        body = JObj [(js ''error'', JStr (js ''Failed to generate response''))]\<rparr>"
    by blast
  from a b show ?thesis
    by (simp only: k)
qed

section \<open>Frame properties of the handlers\<close>











end
